theory Spec2Isabelle
  imports Main "HOL-Library.Multiset"
begin

section \<open>The relational state of the restaurant2 application\<close>

text \<open>
  The Django models of \<^verbatim>\<open>restaurant2/models.py\<close> are tables of rows. A row carries its
  primary key and its foreign keys as numbers; a nullable foreign key is an option.
  The columns filled by \<^verbatim>\<open>auto_now_add\<close> / \<^verbatim>\<open>auto_now\<close> (timestamp, created_at,
  updated_at) are written once by the database and read by none of the operations below;
  they are left out. Display columns (names, images, QR codes) are left out as well.

  \<^verbatim>\<open>Order.STATUS_CHOICES\<close> lists five values; the serializers accept no other value for
  the status field, so the column is the enumeration of these five.
\<close>

datatype status = PENDING | PREPARING | READY | COMPLETED | CANCELLED

record order_row =
  o_id :: nat
  o_restaurant :: nat
  o_table :: "nat option"
  o_user :: "nat option"
  o_employee :: "nat option"
  o_status :: status
  o_paid :: bool

record order_item_row =
  oi_id :: nat
  oi_order :: nat
  oi_menu_item :: nat
  oi_quantity :: nat
  oi_employee :: "nat option"

record history_row =
  h_id :: nat
  h_order :: nat
  h_status :: status

record point_row =
  p_id :: nat
  p_user :: nat
  p_restaurant :: nat
  p_amount :: int

text \<open>
  \<^verbatim>\<open>MenuItem.price\<close> is \<^verbatim>\<open>DecimalField(max_digits=10, decimal_places=2)\<close>: a decimal
  with exactly two places. It is held as its number of hundredths, so \<^verbatim>\<open>8.50\<close> is 850.
  Python's \<^verbatim>\<open>Decimal\<close> multiplies such a value by an integer and adds such values
  exactly (the default context keeps 28 significant digits, which a sum of order lines
  of at most ten digits times a 31-bit quantity does not reach below some hundred million
  lines), and the result keeps two places.
\<close>

record menu_item_row =
  m_id :: nat
  m_restaurant :: nat
  m_category :: nat
  m_price :: int

text \<open>
  The database: one list per table, in insertion order, and the next value of each
  table's \<^verbatim>\<open>id\<close> sequence.
\<close>

record db =
  orders :: "order_row list"
  order_items :: "order_item_row list"
  status_history :: "history_row list"
  points :: "point_row list"
  menu_items :: "menu_item_row list"
  next_order_id :: nat
  next_order_item_id :: nat
  next_history_id :: nat
  next_point_id :: nat

text \<open>Exceptions that the modelled code can raise, as values.\<close>

datatype error = DoesNotExist | KeyError | IntegrityError

section \<open>Table.is\_available\<close>

text \<open>
  \<^verbatim>\<open>return not self.orders.filter(status__in=["PENDING", "PREPARING"]).exists()\<close>
  where \<^verbatim>\<open>self.orders\<close> are the orders whose \<^verbatim>\<open>table\<close> is this table.
\<close>

definition table_orders :: "db \<Rightarrow> nat \<Rightarrow> order_row list" where
  "table_orders d table = filter (\<lambda>r. o_table r = Some table) (orders d)"

definition is_available :: "db \<Rightarrow> nat \<Rightarrow> bool" where
  "is_available d table =
     (\<not> list_ex (\<lambda>r. o_status r \<in> set [PENDING, PREPARING]) (table_orders d table))"

section \<open>Point: the loyalty ledger\<close>



text \<open>
  Modelled from the spec: \<^verbatim>\<open>UserModel.get_total_points\<close> lives in the \<^verbatim>\<open>users\<close>
  application, which is not among the sources. The specification's \<^verbatim>\<open>balance\<close> is
  "sum of all entries for that pair; zero if none exist".
\<close>

definition get_total_points :: "db \<Rightarrow> nat \<Rightarrow> nat \<Rightarrow> int" where
  "get_total_points d user restaurant =
     sum_list (map p_amount
       (filter (\<lambda>p. p_user p = user \<and> p_restaurant p = restaurant) (points d)))"


section \<open>Order.get\_total\_cost\<close>

text \<open>
  \<^verbatim>\<open>return sum(item.menu_item.price * item.quantity for item in self.order_items.all())\<close>
  Reading \<^verbatim>\<open>item.menu_item\<close> fetches the row of the foreign key and raises
  \<^verbatim>\<open>DoesNotExist\<close> when there is none. \<^verbatim>\<open>sum\<close> starts at 0 and adds from left to
  right.
\<close>

definition get_menu_item :: "db \<Rightarrow> nat \<Rightarrow> menu_item_row option" where
  "get_menu_item d k = find (\<lambda>m. m_id m = k) (menu_items d)"

fun sum_costs :: "db \<Rightarrow> order_item_row list \<Rightarrow> int \<Rightarrow> error + int" where
  "sum_costs d [] acc = Inr acc"
| "sum_costs d (item # rest) acc =
     (case get_menu_item d (oi_menu_item item) of
        None \<Rightarrow> Inl DoesNotExist
      | Some m \<Rightarrow> sum_costs d rest (acc + m_price m * int (oi_quantity item)))"

definition order_items_of :: "db \<Rightarrow> nat \<Rightarrow> order_item_row list" where
  "order_items_of d k = filter (\<lambda>i. oi_order i = k) (order_items d)"

definition get_total_cost :: "db \<Rightarrow> order_row \<Rightarrow> error + int" where
  "get_total_cost d order = sum_costs d (order_items_of d (o_id order)) 0"

text \<open>
  The specification's words for one order line: the line refers to a menu item that
  exists, and its cost is the quantity times that menu item's current price.
\<close>

definition line_known :: "db \<Rightarrow> order_item_row \<Rightarrow> bool" where
  "line_known d item = (get_menu_item d (oi_menu_item item) \<noteq> None)"

definition line_cost :: "db \<Rightarrow> order_item_row \<Rightarrow> int" where
  "line_cost d item = m_price (the (get_menu_item d (oi_menu_item item))) * int (oi_quantity item)"

section \<open>The order serializers\<close>

text \<open>
  The validated data of \<^verbatim>\<open>OrderManageSerializer\<close>: a dictionary in which every key
  may be absent. The writable fields are restaurant, table, user, employee, status, paid
  and items (id and timestamp are read-only). A nullable foreign key that is present may
  hold \<^verbatim>\<open>None\<close>.
\<close>

record item_data =
  i_menu_item :: nat
  i_quantity :: nat
  i_employee :: "nat option"

record order_data =
  d_restaurant :: "nat option"
  d_table :: "nat option option"
  d_user :: "nat option option"
  d_employee :: "nat option option"
  d_status :: "status option"
  d_paid :: "bool option"
  d_items :: "item_data list option"

text \<open>\<^verbatim>\<open>dict.get(key, default)\<close>\<close>

definition dict_get :: "'a option \<Rightarrow> 'a \<Rightarrow> 'a" where
  "dict_get v dflt = (case v of None \<Rightarrow> dflt | Some x \<Rightarrow> x)"

text \<open>\<^verbatim>\<open>OrderItem.objects.create(order=order, **order_item_data)\<close>\<close>

definition OrderItem_create :: "nat \<Rightarrow> item_data \<Rightarrow> db \<Rightarrow> db" where
  "OrderItem_create order item d =
     d\<lparr>order_items := order_items d @
          [\<lparr>oi_id = next_order_item_id d, oi_order = order, oi_menu_item = i_menu_item item,
            oi_quantity = i_quantity item, oi_employee = i_employee item\<rparr>],
       next_order_item_id := Suc (next_order_item_id d)\<rparr>"

text \<open>\<^verbatim>\<open>for order_item_data in order_items_data: OrderItem.objects.create(...)\<close>\<close>

fun create_items :: "nat \<Rightarrow> item_data list \<Rightarrow> db \<Rightarrow> db" where
  "create_items order [] d = d"
| "create_items order (item # rest) d = create_items order rest (OrderItem_create order item d)"

text \<open>\<^verbatim>\<open>OrderStatusHistory.objects.create(order=order, status=status)\<close>\<close>

definition OrderStatusHistory_create :: "db \<Rightarrow> nat \<Rightarrow> status \<Rightarrow> db" where
  "OrderStatusHistory_create d order st =
     d\<lparr>status_history := status_history d @
          [\<lparr>h_id = next_history_id d, h_order = order, h_status = st\<rparr>],
       next_history_id := Suc (next_history_id d)\<rparr>"

text \<open>
  \<^verbatim>\<open>instance.save()\<close> of an order that has a primary key: Django updates the row of
  that key, and inserts the row when the update touched none.
\<close>

definition Order_save :: "db \<Rightarrow> order_row \<Rightarrow> db" where
  "Order_save d inst =
     (if list_ex (\<lambda>r. o_id r = o_id inst) (orders d)
      then d\<lparr>orders := map (\<lambda>r. if o_id r = o_id inst then inst else r) (orders d)\<rparr>
      else d\<lparr>orders := orders d @ [inst]\<rparr>)"

text \<open>
  \<^verbatim>\<open>def create(self, validated_data):
      order_items_data = validated_data.pop("items")
      order = Order.objects.create(**validated_data)
      for order_item_data in order_items_data:
          OrderItem.objects.create(order=order, **order_item_data)
      OrderStatusHistory.objects.create(order=order, status=order.status)
      return order\<close>
  \<^verbatim>\<open>pop\<close> without a default raises \<^verbatim>\<open>KeyError\<close> on a missing key. The restaurant
  column is not nullable: a row without it is refused by the database. The other columns
  take their defaults (\<^verbatim>\<open>None\<close>, \<^verbatim>\<open>"PENDING"\<close>, \<^verbatim>\<open>False\<close>) when the key is absent.
\<close>

definition OrderManageSerializer_create :: "db \<Rightarrow> order_data \<Rightarrow> error + (db \<times> order_row)" where
  "OrderManageSerializer_create d validated_data =
     (case d_items validated_data of
        None \<Rightarrow> Inl KeyError
      | Some order_items_data \<Rightarrow>
          (case d_restaurant validated_data of
             None \<Rightarrow> Inl IntegrityError
           | Some r \<Rightarrow>
               (let order = \<lparr>o_id = next_order_id d, o_restaurant = r,
                             o_table = dict_get (d_table validated_data) None,
                             o_user = dict_get (d_user validated_data) None,
                             o_employee = dict_get (d_employee validated_data) None,
                             o_status = dict_get (d_status validated_data) PENDING,
                             o_paid = dict_get (d_paid validated_data) False\<rparr>;
                    d1 = d\<lparr>orders := orders d @ [order],
                           next_order_id := Suc (next_order_id d)\<rparr>;
                    d2 = create_items (o_id order) order_items_data d1;
                    d3 = OrderStatusHistory_create d2 (o_id order) (o_status order)
                in Inr (d3, order))))"

text \<open>
  \<^verbatim>\<open>def update(self, instance, validated_data):
      order_items_data = validated_data.pop("items", None)
      instance.table = validated_data.get("table", instance.table)
      instance.status = validated_data.get("status", instance.status)
      instance.paid = validated_data.get("paid", instance.paid)
      instance.save()
      if order_items_data is not None:
          OrderItem.objects.filter(order=instance).delete()
          for order_item_data in order_items_data:
              OrderItem.objects.create(order=instance, **order_item_data)
      if 'status' in validated_data:
          OrderStatusHistory.objects.create(order=instance, status=instance.status)
      return instance\<close>
\<close>

definition OrderManageSerializer_update ::
  "db \<Rightarrow> order_row \<Rightarrow> order_data \<Rightarrow> error + (db \<times> order_row)" where
  "OrderManageSerializer_update d instance validated_data =
     (let order_items_data = d_items validated_data;
          instance1 = instance\<lparr>o_table := dict_get (d_table validated_data) (o_table instance),
                               o_status := dict_get (d_status validated_data) (o_status instance),
                               o_paid := dict_get (d_paid validated_data) (o_paid instance)\<rparr>;
          d1 = Order_save d instance1;
          d2 = (case order_items_data of
                  None \<Rightarrow> d1
                | Some new_items \<Rightarrow>
                    create_items (o_id instance1) new_items
                      (d1\<lparr>order_items :=
                            filter (\<lambda>i. oi_order i \<noteq> o_id instance1) (order_items d1)\<rparr>));
          d3 = (case d_status validated_data of
                  None \<Rightarrow> d2
                | Some _ \<Rightarrow> OrderStatusHistory_create d2 (o_id instance1) (o_status instance1))
      in Inr (d3, instance1))"

text \<open>
  \<^verbatim>\<open>def update(self, instance, validated_data):
      instance.status = "CANCELLED"
      instance.save()
      OrderStatusHistory.objects.create(order=instance, status="CANCELLED")
      return instance\<close>
\<close>

definition OrderCancelSerializer_update :: "db \<Rightarrow> order_row \<Rightarrow> error + (db \<times> order_row)" where
  "OrderCancelSerializer_update d instance =
     (let instance1 = instance\<lparr>o_status := CANCELLED\<rparr>;
          d1 = Order_save d instance1;
          d2 = OrderStatusHistory_create d1 (o_id instance1) CANCELLED
      in Inr (d2, instance1))"

text \<open>
  \<^verbatim>\<open>def update(self, instance, validated_data):
      order = instance.order
      instance.delete()
      if not order.order_items.exists():
          order.status = "CANCELLED"
          order.save()
          OrderStatusHistory.objects.create(order=order, status="CANCELLED")
      return instance\<close>
  \<^verbatim>\<open>instance.order\<close> fetches the order row of the item's foreign key
  (\<^verbatim>\<open>DoesNotExist\<close> when there is none); \<^verbatim>\<open>instance.delete()\<close> removes the row with
  the item's primary key.
\<close>

definition get_order :: "db \<Rightarrow> nat \<Rightarrow> order_row option" where
  "get_order d k = find (\<lambda>r. o_id r = k) (orders d)"

definition OrderItem_delete :: "db \<Rightarrow> order_item_row \<Rightarrow> db" where
  "OrderItem_delete d instance =
     d\<lparr>order_items := filter (\<lambda>i. oi_id i \<noteq> oi_id instance) (order_items d)\<rparr>"

definition OrderItemCancelSerializer_update ::
  "db \<Rightarrow> order_item_row \<Rightarrow> error + (db \<times> order_item_row)" where
  "OrderItemCancelSerializer_update d instance =
     (case get_order d (oi_order instance) of
        None \<Rightarrow> Inl DoesNotExist
      | Some order \<Rightarrow>
          (let d1 = OrderItem_delete d instance
           in if \<not> list_ex (\<lambda>i. oi_order i = o_id order) (order_items d1)
              then (let order1 = order\<lparr>o_status := CANCELLED\<rparr>;
                        d2 = Order_save d1 order1;
                        d3 = OrderStatusHistory_create d2 (o_id order1) CANCELLED
                    in Inr (d3, instance))
              else Inr (d1, instance)))"

text \<open>The status history of one order, oldest first, and the terminal states.\<close>

definition history_of :: "db \<Rightarrow> nat \<Rightarrow> status list" where
  "history_of d k = map h_status (filter (\<lambda>h. h_order h = k) (status_history d))"

definition terminal :: "status \<Rightarrow> bool" where
  "terminal st = (st = COMPLETED \<or> st = CANCELLED)"

text \<open>
  The rows that the loop of \<open>create_items\<close> inserts for an order, the first with the
  primary key \<open>n\<close>.
\<close>

fun item_rows :: "nat \<Rightarrow> nat \<Rightarrow> item_data list \<Rightarrow> order_item_row list" where
  "item_rows order n [] = []"
| "item_rows order n (item # rest) =
     \<lparr>oi_id = n, oi_order = order, oi_menu_item = i_menu_item item,
      oi_quantity = i_quantity item, oi_employee = i_employee item\<rparr>
     # item_rows order (Suc n) rest"

text \<open>
  What the database guarantees of the order and history tables: the primary keys of the
  orders were drawn from the sequence, and the foreign key of every history row refers to
  an order that exists.
\<close>

definition db_consistent :: "db \<Rightarrow> bool" where
  "db_consistent d =
     (list_all (\<lambda>r. o_id r < next_order_id d) (orders d)
      \<and> list_all (\<lambda>h. list_ex (\<lambda>r. o_id r = h_order h) (orders d)) (status_history d))"

section \<open>An example state\<close>

text \<open>
  One restaurant with two menu items (8.50 and 3.25), an open order at table 1 with two
  lines (2 x 8.50 and 1 x 3.25), a completed order at table 2 with one line, and a
  customer (user 7) holding 10 points.
\<close>

definition example_db :: db where
  "example_db =
     \<lparr>orders =
        [\<lparr>o_id = 1, o_restaurant = 1, o_table = Some 1, o_user = Some 7, o_employee = None,
          o_status = PENDING, o_paid = False\<rparr>,
         \<lparr>o_id = 2, o_restaurant = 1, o_table = Some 2, o_user = Some 7, o_employee = None,
          o_status = COMPLETED, o_paid = True\<rparr>],
      order_items =
        [\<lparr>oi_id = 1, oi_order = 1, oi_menu_item = 1, oi_quantity = 2, oi_employee = None\<rparr>,
         \<lparr>oi_id = 2, oi_order = 1, oi_menu_item = 2, oi_quantity = 1, oi_employee = None\<rparr>,
         \<lparr>oi_id = 3, oi_order = 2, oi_menu_item = 2, oi_quantity = 4, oi_employee = None\<rparr>],
      status_history =
        [\<lparr>h_id = 1, h_order = 1, h_status = PENDING\<rparr>,
         \<lparr>h_id = 2, h_order = 2, h_status = PENDING\<rparr>,
         \<lparr>h_id = 3, h_order = 2, h_status = COMPLETED\<rparr>],
      points = [\<lparr>p_id = 1, p_user = 7, p_restaurant = 1, p_amount = 10\<rparr>],
      menu_items =
        [\<lparr>m_id = 1, m_restaurant = 1, m_category = 1, m_price = 850\<rparr>,
         \<lparr>m_id = 2, m_restaurant = 1, m_category = 1, m_price = 325\<rparr>],
      next_order_id = 3, next_order_item_id = 4, next_history_id = 4, next_point_id = 2\<rparr>"

definition open_order :: order_row where
  "open_order = \<lparr>o_id = 1, o_restaurant = 1, o_table = Some 1, o_user = Some 7,
                  o_employee = None, o_status = PENDING, o_paid = False\<rparr>"

definition completed_order :: order_row where
  "completed_order = \<lparr>o_id = 2, o_restaurant = 1, o_table = Some 2, o_user = Some 7,
                       o_employee = None, o_status = COMPLETED, o_paid = True\<rparr>"

text \<open>
  Request data: a partial update that carries no field, and a creation request for one
  line of menu item 1 that also supplies a status.
\<close>

definition no_data :: order_data where
  "no_data = \<lparr>d_restaurant = None, d_table = None, d_user = None, d_employee = None,
              d_status = None, d_paid = None, d_items = None\<rparr>"

definition ready_data :: order_data where
  "ready_data = \<lparr>d_restaurant = Some 1, d_table = Some (Some 3), d_user = None,
                 d_employee = None, d_status = Some READY, d_paid = None,
                 d_items = Some [\<lparr>i_menu_item = 1, i_quantity = 2, i_employee = None\<rparr>]\<rparr>"

section \<open>Table availability\<close>

text \<open>
  Claim C8. \<open>is_available\<close> is false exactly when some order of the table is
  \<open>PENDING\<close> or \<open>PREPARING\<close>; a table all of whose orders are \<open>READY\<close>,
  \<open>COMPLETED\<close> or \<open>CANCELLED\<close>, and so also a table without orders, is available.
\<close>

theorem is_available_iff:
  "(is_available d t = False) =
     (\<exists>r\<in>set (orders d). o_table r = Some t \<and> (o_status r = PENDING \<or> o_status r = PREPARING))
   \<and> ((\<forall>r\<in>set (orders d). o_table r = Some t \<longrightarrow>
          o_status r = READY \<or> o_status r = COMPLETED \<or> o_status r = CANCELLED)
        \<longrightarrow> is_available d t)"
  by (auto simp: is_available_def table_orders_def list_ex_iff)

text \<open>Table 1 has a pending order, table 2 a completed one, table 3 none.\<close>

theorem is_available_iff_witness:
  "is_available example_db 1 = False \<and> is_available example_db 2 \<and> is_available example_db 3"
  using is_available_iff [of example_db 1] is_available_iff [of example_db 2]
    is_available_iff [of example_db 3]
  by (simp add: example_db_def)

section \<open>The ledger\<close>



lemma get_total_points_example: "get_total_points example_db 7 1 = 10"
  by (simp add: get_total_points_def example_db_def)






section \<open>The total of an order\<close>

text \<open>
  The loop of \<open>sum_costs\<close> in closed form: the sum of the line costs when every line's
  menu item exists, the exception otherwise.
\<close>

lemma sum_costs_char:
  "sum_costs d items acc =
     (if list_all (line_known d) items then Inr (acc + sum_list (map (line_cost d) items))
      else Inl DoesNotExist)"
  by (induction items arbitrary: acc)
     (auto simp: line_known_def line_cost_def split: option.splits)





section \<open>The serializers in closed form\<close>

text \<open>The loop that inserts the order lines, and the row lookups after a save.\<close>

lemma create_items_char:
  "create_items k items d =
     d\<lparr>order_items := order_items d @ item_rows k (next_order_item_id d) items,
       next_order_item_id := next_order_item_id d + length items\<rparr>"
  by (induction items arbitrary: d) (simp_all add: OrderItem_create_def)

lemma get_order_Some: "get_order d k = Some r \<Longrightarrow> o_id r = k \<and> r \<in> set (orders d)"
  by (auto simp: get_order_def find_Some_iff)

lemma find_replace:
  "o_id inst = k \<Longrightarrow> list_ex (\<lambda>r. o_id r = k) xs \<Longrightarrow>
     find (\<lambda>r. o_id r = k) (map (\<lambda>r. if o_id r = k then inst else r) xs) = Some inst"
  by (induction xs) auto

lemma find_append_new:
  "o_id inst = k \<Longrightarrow> \<not> list_ex (\<lambda>r. o_id r = k) xs \<Longrightarrow>
     find (\<lambda>r. o_id r = k) (xs @ [inst]) = Some inst"
  by (induction xs) auto

lemma get_order_Order_save: "get_order (Order_save d inst) (o_id inst) = Some inst"
  by (simp add: get_order_def Order_save_def find_replace find_append_new)

lemma find_replace_other:
  "k' \<noteq> o_id inst \<Longrightarrow>
     find (\<lambda>r. o_id r = k') (map (\<lambda>r. if o_id r = o_id inst then inst else r) xs)
       = find (\<lambda>r. o_id r = k') xs"
  by (induction xs) auto

lemma find_append_other:
  "k' \<noteq> o_id inst \<Longrightarrow> find (\<lambda>r. o_id r = k') (xs @ [inst]) = find (\<lambda>r. o_id r = k') xs"
  by (induction xs) auto

lemma get_order_Order_save_other:
  "k' \<noteq> o_id inst \<Longrightarrow> get_order (Order_save d inst) k' = get_order d k'"
  by (simp add: get_order_def Order_save_def find_replace_other find_append_other)

lemma Order_save_frame:
  "order_items (Order_save d inst) = order_items d"
  "status_history (Order_save d inst) = status_history d"
  "points (Order_save d inst) = points d"
  "menu_items (Order_save d inst) = menu_items d"
  "next_order_id (Order_save d inst) = next_order_id d"
  "next_order_item_id (Order_save d inst) = next_order_item_id d"
  "next_history_id (Order_save d inst) = next_history_id d"
  "next_point_id (Order_save d inst) = next_point_id d"
  by (simp_all add: Order_save_def)

lemma get_order_more [simp]:
  "get_order (d\<lparr>order_items := x\<rparr>) k = get_order d k"
  "get_order (d\<lparr>status_history := y\<rparr>) k = get_order d k"
  "get_order (d\<lparr>next_history_id := n\<rparr>) k = get_order d k"
  "get_order (d\<lparr>next_order_item_id := n\<rparr>) k = get_order d k"
  by (simp_all add: get_order_def)

lemma get_total_points_more [simp]:
  "get_total_points (d\<lparr>order_items := x\<rparr>) u r = get_total_points d u r"
  "get_total_points (d\<lparr>status_history := y\<rparr>) u r = get_total_points d u r"
  "get_total_points (d\<lparr>next_history_id := n\<rparr>) u r = get_total_points d u r"
  "get_total_points (d\<lparr>next_order_item_id := n\<rparr>) u r = get_total_points d u r"
  "get_total_points (Order_save d inst) u r = get_total_points d u r"
  by (simp_all add: get_total_points_def Order_save_frame)

text \<open>The whole effect of \<open>OrderManageSerializer_update\<close>, which returns on every input.\<close>

lemma update_result:
  "OrderManageSerializer_update d inst data =
     Inr ((Order_save d
             (inst\<lparr>o_table := dict_get (d_table data) (o_table inst),
                   o_status := dict_get (d_status data) (o_status inst),
                   o_paid := dict_get (d_paid data) (o_paid inst)\<rparr>))
            \<lparr>order_items :=
               (case d_items data of None \<Rightarrow> order_items d
                | Some new_items \<Rightarrow>
                    filter (\<lambda>i. oi_order i \<noteq> o_id inst) (order_items d)
                    @ item_rows (o_id inst) (next_order_item_id d) new_items),
             next_order_item_id :=
               (case d_items data of None \<Rightarrow> next_order_item_id d
                | Some new_items \<Rightarrow> next_order_item_id d + length new_items),
             status_history :=
               (case d_status data of None \<Rightarrow> status_history d
                | Some s \<Rightarrow> status_history d
                    @ [\<lparr>h_id = next_history_id d, h_order = o_id inst, h_status = s\<rparr>]),
             next_history_id :=
               (case d_status data of None \<Rightarrow> next_history_id d
                | Some s \<Rightarrow> Suc (next_history_id d))\<rparr>,
          inst\<lparr>o_table := dict_get (d_table data) (o_table inst),
               o_status := dict_get (d_status data) (o_status inst),
               o_paid := dict_get (d_paid data) (o_paid inst)\<rparr>)"
  by (simp add: OrderManageSerializer_update_def Let_def create_items_char Order_save_frame
      OrderStatusHistory_create_def dict_get_def split: option.splits)

section \<open>The status history\<close>

text \<open>
  Claim C9. An update request appends exactly one history entry when it carries a status
  field, also when that status is the one the order already has, and the entry holds the
  supplied status; a request without a status field appends none, whatever it changes of
  the table, the paid flag or the lines.
\<close>

theorem update_history:
  "(case OrderManageSerializer_update d inst data of
      Inl e \<Rightarrow> False
    | Inr (d', inst') \<Rightarrow>
        status_history d' =
          (case d_status data of
             None \<Rightarrow> status_history d
           | Some s \<Rightarrow> status_history d
               @ [\<lparr>h_id = next_history_id d, h_order = o_id inst, h_status = s\<rparr>])
        \<and> length (status_history d') =
            length (status_history d) + (if d_status data = None then 0 else 1))"
  by (simp add: update_result split: option.splits)

text \<open>
  Setting a completed order to \<open>COMPLETED\<close> again adds a history entry; changing table,
  paid flag and lines of an order without a status field adds none.
\<close>

theorem update_history_witness:
  "(case OrderManageSerializer_update example_db completed_order
           (no_data\<lparr>d_status := Some COMPLETED\<rparr>) of
      Inl e \<Rightarrow> False
    | Inr (d', inst') \<Rightarrow>
        o_status inst' = o_status completed_order
        \<and> status_history d' = status_history example_db
             @ [\<lparr>h_id = 4, h_order = 2, h_status = COMPLETED\<rparr>])
   \<and> (case OrderManageSerializer_update example_db open_order
           (no_data\<lparr>d_table := Some None, d_paid := Some True, d_items := Some []\<rparr>) of
      Inl e \<Rightarrow> False
    | Inr (d', inst') \<Rightarrow> status_history d' = status_history example_db)"
  using update_history [of example_db completed_order "no_data\<lparr>d_status := Some COMPLETED\<rparr>"]
    update_history [of example_db open_order
      "no_data\<lparr>d_table := Some None, d_paid := Some True, d_items := Some []\<rparr>"]
  by (auto simp: no_data_def completed_order_def open_order_def example_db_def
      update_result dict_get_def split: sum.splits prod.splits)

lemma history_of_append:
  "history_of (d\<lparr>status_history := status_history d0 @ [\<lparr>h_id = n, h_order = k, h_status = s\<rparr>],
               next_history_id := m\<rparr>) k
     = history_of (d\<lparr>status_history := status_history d0\<rparr>) k @ [s]"
  by (simp add: history_of_def)

lemma cancel_result:
  "OrderCancelSerializer_update d inst =
     Inr ((Order_save d (inst\<lparr>o_status := CANCELLED\<rparr>))
            \<lparr>status_history := status_history d
               @ [\<lparr>h_id = next_history_id d, h_order = o_id inst, h_status = CANCELLED\<rparr>],
             next_history_id := Suc (next_history_id d)\<rparr>,
          inst\<lparr>o_status := CANCELLED\<rparr>)"
  by (simp add: OrderCancelSerializer_update_def Let_def Order_save_frame
      OrderStatusHistory_create_def)

lemma create_result:
  "d_items data = Some items \<Longrightarrow> d_restaurant data = Some r \<Longrightarrow>
   OrderManageSerializer_create d data =
     Inr (d\<lparr>orders := orders d
              @ [\<lparr>o_id = next_order_id d, o_restaurant = r,
                  o_table = dict_get (d_table data) None,
                  o_user = dict_get (d_user data) None,
                  o_employee = dict_get (d_employee data) None,
                  o_status = dict_get (d_status data) PENDING,
                  o_paid = dict_get (d_paid data) False\<rparr>],
            next_order_id := Suc (next_order_id d),
            order_items := order_items d
              @ item_rows (next_order_id d) (next_order_item_id d) items,
            next_order_item_id := next_order_item_id d + length items,
            status_history := status_history d
              @ [\<lparr>h_id = next_history_id d, h_order = next_order_id d,
                  h_status = dict_get (d_status data) PENDING\<rparr>],
            next_history_id := Suc (next_history_id d)\<rparr>,
          \<lparr>o_id = next_order_id d, o_restaurant = r,
            o_table = dict_get (d_table data) None,
            o_user = dict_get (d_user data) None,
            o_employee = dict_get (d_employee data) None,
            o_status = dict_get (d_status data) PENDING,
            o_paid = dict_get (d_paid data) False\<rparr>)"
  by (simp add: OrderManageSerializer_create_def Let_def create_items_char
      OrderStatusHistory_create_def)

lemma fresh_order_no_history:
  assumes "db_consistent d"
  shows "filter (\<lambda>h. h_order h = next_order_id d) (status_history d) = []"
proof -
  have "h_order h \<noteq> next_order_id d" if "h \<in> set (status_history d)" for h
  proof -
    from assms that obtain r where "r \<in> set (orders d)" "o_id r = h_order h"
      by (auto simp: db_consistent_def list_all_iff list_ex_iff)
    moreover from assms have "\<forall>r\<in>set (orders d). o_id r < next_order_id d"
      by (simp add: db_consistent_def list_all_iff)
    ultimately show ?thesis by auto
  qed
  then show ?thesis by (simp add: filter_empty_conv)
qed

text \<open>
  Claim C4, as the code has it. In a consistent database, right after creation the
  history of the new order has exactly one entry, and it carries the status the order
  was created with: \<open>PENDING\<close> when the creation data has no status field, the supplied
  status otherwise. Every status change (an update with a status field, a cancellation)
  returns and appends exactly one entry with the new status, so the order's history grows
  by one.
\<close>

theorem history_after_create_and_update:
  "(db_consistent d \<and> d_items data = Some items \<and> d_restaurant data = Some r \<longrightarrow>
      (case OrderManageSerializer_create d data of
         Inl e \<Rightarrow> False
       | Inr (d', order) \<Rightarrow>
           history_of d' (o_id order) = [o_status order]
           \<and> o_status order = (case d_status data of None \<Rightarrow> PENDING | Some s \<Rightarrow> s)))
   \<and> (d_status data2 = Some s2 \<longrightarrow>
      (case OrderManageSerializer_update d inst data2 of
         Inl e \<Rightarrow> False
       | Inr (d', inst') \<Rightarrow>
           o_status inst' = s2
           \<and> history_of d' (o_id inst) = history_of d (o_id inst) @ [s2]
           \<and> length (history_of d' (o_id inst)) = Suc (length (history_of d (o_id inst)))))
   \<and> (case OrderCancelSerializer_update d inst of
         Inl e \<Rightarrow> False
       | Inr (d', inst') \<Rightarrow>
           o_status inst' = CANCELLED
           \<and> history_of d' (o_id inst) = history_of d (o_id inst) @ [CANCELLED])"
proof (intro conjI impI)
  assume a: "db_consistent d \<and> d_items data = Some items \<and> d_restaurant data = Some r"
  then have "filter (\<lambda>h. h_order h = next_order_id d) (status_history d) = []"
    by (simp add: fresh_order_no_history)
  with a show "case OrderManageSerializer_create d data of
         Inl e \<Rightarrow> False
       | Inr (d', order) \<Rightarrow>
           history_of d' (o_id order) = [o_status order]
           \<and> o_status order = (case d_status data of None \<Rightarrow> PENDING | Some s \<Rightarrow> s)"
    by (simp add: create_result history_of_def dict_get_def)
next
  assume "d_status data2 = Some s2"
  then show "case OrderManageSerializer_update d inst data2 of
         Inl e \<Rightarrow> False
       | Inr (d', inst') \<Rightarrow>
           o_status inst' = s2
           \<and> history_of d' (o_id inst) = history_of d (o_id inst) @ [s2]
           \<and> length (history_of d' (o_id inst)) = Suc (length (history_of d (o_id inst)))"
    by (simp add: update_result history_of_def dict_get_def)
next
  show "case OrderCancelSerializer_update d inst of
         Inl e \<Rightarrow> False
       | Inr (d', inst') \<Rightarrow>
           o_status inst' = CANCELLED
           \<and> history_of d' (o_id inst) = history_of d (o_id inst) @ [CANCELLED]"
    by (simp add: cancel_result history_of_def)
qed

text \<open>Creation keeps the database consistent, and the example state is consistent.\<close>

lemma create_keeps_consistent:
  assumes "db_consistent d" "OrderManageSerializer_create d data = Inr (d', order)"
  shows "db_consistent d'"
proof -
  from assms(2) obtain items r where a: "d_items data = Some items" "d_restaurant data = Some r"
    by (auto simp: OrderManageSerializer_create_def split: option.splits)
  have "\<forall>x\<in>set (orders d). o_id x < next_order_id d"
    using assms(1) by (simp add: db_consistent_def list_all_iff)
  moreover have "\<forall>h\<in>set (status_history d). \<exists>x\<in>set (orders d). o_id x = h_order h"
    using assms(1) by (simp add: db_consistent_def list_all_iff list_ex_iff)
  ultimately show ?thesis
    using assms(2) unfolding create_result [OF a]
    by (auto simp: db_consistent_def list_all_iff list_ex_iff less_Suc_eq)
qed

lemma example_db_consistent: "db_consistent example_db"
  by (simp add: db_consistent_def example_db_def)

text \<open>
  Creation without a status field, an update to \<open>PREPARING\<close> and a cancellation on the
  example state.
\<close>

theorem history_after_create_and_update_witness:
  "db_consistent example_db
   \<and> (case OrderManageSerializer_create example_db (ready_data\<lparr>d_status := None\<rparr>) of
         Inl e \<Rightarrow> False
       | Inr (d', order) \<Rightarrow> o_id order = 3 \<and> history_of d' 3 = [PENDING])
   \<and> (case OrderManageSerializer_update example_db open_order (no_data\<lparr>d_status := Some PREPARING\<rparr>) of
         Inl e \<Rightarrow> False
       | Inr (d', inst') \<Rightarrow> history_of d' 1 = [PENDING, PREPARING])
   \<and> (case OrderCancelSerializer_update example_db open_order of
         Inl e \<Rightarrow> False
       | Inr (d', inst') \<Rightarrow> history_of d' 1 = [PENDING, CANCELLED])"
  using history_after_create_and_update
    [where d = example_db and data = "ready_data\<lparr>d_status := None\<rparr>"
       and items = "[\<lparr>i_menu_item = 1, i_quantity = 2, i_employee = None\<rparr>]" and r = 1
       and ?data2.0 = "no_data\<lparr>d_status := Some PREPARING\<rparr>" and ?s2.0 = PREPARING
       and inst = open_order]
    example_db_consistent
  by (auto simp: ready_data_def no_data_def open_order_def history_of_def example_db_def
      create_result dict_get_def split: sum.splits prod.splits)

text \<open>
  The claim as written has the single entry carry \<open>PENDING\<close> for every order. The
  serializer's status field is writable on creation: an order created with status
  \<open>READY\<close> has the history \<open>[READY]\<close>.
\<close>

theorem create_with_status_counterexample:
  "(case OrderManageSerializer_create example_db ready_data of
      Inl e \<Rightarrow> False
    | Inr (d', order) \<Rightarrow> history_of d' (o_id order) = [READY])"
  by (simp add: create_result [where items = "[\<lparr>i_menu_item = 1, i_quantity = 2, i_employee = None\<rparr>]" and r = 1]
      ready_data_def history_of_def example_db_def dict_get_def)

section \<open>Cancelling an order line\<close>

lemma get_order_Order_save_at:
  "o_id inst = k \<Longrightarrow> get_order (Order_save d inst) k = Some inst"
  using get_order_Order_save [of d inst] by simp

lemma cancel_item_result:
  "get_order d (oi_order item) = Some order \<Longrightarrow>
   OrderItemCancelSerializer_update d item =
     Inr (if list_ex (\<lambda>i. oi_order i = o_id order)
               (filter (\<lambda>i. oi_id i \<noteq> oi_id item) (order_items d))
          then d\<lparr>order_items := filter (\<lambda>i. oi_id i \<noteq> oi_id item) (order_items d)\<rparr>
          else (Order_save
                  (d\<lparr>order_items := filter (\<lambda>i. oi_id i \<noteq> oi_id item) (order_items d)\<rparr>)
                  (order\<lparr>o_status := CANCELLED\<rparr>))
                 \<lparr>status_history := status_history d
                    @ [\<lparr>h_id = next_history_id d, h_order = o_id order, h_status = CANCELLED\<rparr>],
                  next_history_id := Suc (next_history_id d)\<rparr>,
          item)"
  by (simp add: OrderItemCancelSerializer_update_def Let_def OrderItem_delete_def
      Order_save_frame OrderStatusHistory_create_def)

lemma list_ex_filter_empty: "list_ex P xs = (filter P xs \<noteq> [])"
  by (induction xs) auto

text \<open>
  Claim C5. For an order line whose order exists, \<open>OrderItemCancelSerializer_update\<close>
  returns and deletes the line. If the order then has no line left, the order's row is
  the old one with status \<open>CANCELLED\<close> and one \<open>CANCELLED\<close> history entry is appended;
  if lines remain, the order table (status and paid flag included) and the history are
  what they were.
\<close>

theorem cancel_item_effect:
  "get_order d (oi_order item) = Some order \<longrightarrow>
     (case OrderItemCancelSerializer_update d item of
        Inl e \<Rightarrow> False
      | Inr (d', item') \<Rightarrow>
          order_items d' = filter (\<lambda>i. oi_id i \<noteq> oi_id item) (order_items d)
          \<and> item \<notin> set (order_items d')
          \<and> (if order_items_of d' (o_id order) = []
              then get_order d' (o_id order) = Some (order\<lparr>o_status := CANCELLED\<rparr>)
                   \<and> status_history d' = status_history d
                        @ [\<lparr>h_id = next_history_id d, h_order = o_id order,
                            h_status = CANCELLED\<rparr>]
              else orders d' = orders d
                   \<and> get_order d' (o_id order) = Some order
                   \<and> status_history d' = status_history d))"
proof
  assume a: "get_order d (oi_order item) = Some order"
  then have k: "o_id order = oi_order item"
    by (simp add: get_order_Some)
  show "case OrderItemCancelSerializer_update d item of
        Inl e \<Rightarrow> False
      | Inr (d', item') \<Rightarrow>
          order_items d' = filter (\<lambda>i. oi_id i \<noteq> oi_id item) (order_items d)
          \<and> item \<notin> set (order_items d')
          \<and> (if order_items_of d' (o_id order) = []
              then get_order d' (o_id order) = Some (order\<lparr>o_status := CANCELLED\<rparr>)
                   \<and> status_history d' = status_history d
                        @ [\<lparr>h_id = next_history_id d, h_order = o_id order,
                            h_status = CANCELLED\<rparr>]
              else orders d' = orders d
                   \<and> get_order d' (o_id order) = Some order
                   \<and> status_history d' = status_history d)"
    using a k
    by (simp add: cancel_item_result [OF a] order_items_of_def list_ex_filter_empty
        Order_save_frame get_order_Order_save_at)
qed

text \<open>
  Order 2 has a single line: cancelling it cancels the order. Order 1 has two lines:
  cancelling one leaves the order as it was.
\<close>

theorem cancel_item_effect_witness:
  "get_order example_db 2 = Some completed_order
   \<and> (case OrderItemCancelSerializer_update example_db
             \<lparr>oi_id = 3, oi_order = 2, oi_menu_item = 2, oi_quantity = 4, oi_employee = None\<rparr> of
        Inl e \<Rightarrow> False
      | Inr (d', item') \<Rightarrow>
          order_items_of d' 2 = []
          \<and> get_order d' 2 = Some (completed_order\<lparr>o_status := CANCELLED\<rparr>)
          \<and> history_of d' 2 = [PENDING, COMPLETED, CANCELLED])
   \<and> get_order example_db 1 = Some open_order
   \<and> (case OrderItemCancelSerializer_update example_db
             \<lparr>oi_id = 1, oi_order = 1, oi_menu_item = 1, oi_quantity = 2, oi_employee = None\<rparr> of
        Inl e \<Rightarrow> False
      | Inr (d', item') \<Rightarrow>
          order_items_of d' 1 =
            [\<lparr>oi_id = 2, oi_order = 1, oi_menu_item = 2, oi_quantity = 1, oi_employee = None\<rparr>]
          \<and> get_order d' 1 = Some open_order
          \<and> history_of d' 1 = [PENDING])"
  using cancel_item_effect
      [where d = example_db and order = completed_order
         and item = "\<lparr>oi_id = 3, oi_order = 2, oi_menu_item = 2, oi_quantity = 4, oi_employee = None\<rparr>"]
    cancel_item_effect
      [where d = example_db and order = open_order
         and item = "\<lparr>oi_id = 1, oi_order = 1, oi_menu_item = 1, oi_quantity = 2, oi_employee = None\<rparr>"]
  by (auto simp: example_db_def completed_order_def open_order_def get_order_def
      order_items_of_def history_of_def split: sum.splits prod.splits if_splits)

section \<open>Completion and the ledger\<close>

text \<open>
  Claim C3, as the code has it. An update to \<open>COMPLETED\<close> returns, sets the status and
  appends the \<open>COMPLETED\<close> history entry, and that is all: \<open>OrderManageSerializer.update\<close>
  never calls \<open>Point.add_points\<close>. The Point table is unchanged, and with it the balance
  of every user at every restaurant, whether or not the order has a customer.
\<close>

theorem completion_awards_no_points:
  "d_status data = Some COMPLETED \<longrightarrow>
     (case OrderManageSerializer_update d inst data of
        Inl e \<Rightarrow> False
      | Inr (d', inst') \<Rightarrow>
          o_status inst' = COMPLETED
          \<and> o_user inst' = o_user inst
          \<and> status_history d' = status_history d
               @ [\<lparr>h_id = next_history_id d, h_order = o_id inst, h_status = COMPLETED\<rparr>]
          \<and> points d' = points d
          \<and> get_total_points d' u r = get_total_points d u r)"
  by (simp add: update_result dict_get_def Order_save_frame)

text \<open>Completing an order that has no customer.\<close>

theorem completion_awards_no_points_witness:
  "(case OrderManageSerializer_update example_db
           (open_order\<lparr>o_user := None\<rparr>) (no_data\<lparr>d_status := Some COMPLETED\<rparr>) of
      Inl e \<Rightarrow> False
    | Inr (d', inst') \<Rightarrow>
        o_status inst' = COMPLETED \<and> o_user inst' = None \<and> points d' = points example_db)"
  using completion_awards_no_points
      [where d = example_db and inst = "open_order\<lparr>o_user := None\<rparr>"
         and data = "no_data\<lparr>d_status := Some COMPLETED\<rparr>"]
  by (auto simp: no_data_def split: sum.splits prod.splits)

text \<open>
  The claim as written has the completion of an order with a customer earn points.
  Order 1 of the example belongs to user 7 and totals 20.25; after its completion user 7
  still holds 10 points at restaurant 1 and the Point table has no new entry.
\<close>

theorem completion_awards_no_points_counterexample:
  "get_total_cost example_db open_order = Inr 2025
   \<and> get_total_points example_db 7 1 = 10
   \<and> (case OrderManageSerializer_update example_db open_order
             (no_data\<lparr>d_status := Some COMPLETED\<rparr>) of
        Inl e \<Rightarrow> False
      | Inr (d', inst') \<Rightarrow>
          o_status inst' = COMPLETED \<and> o_user inst' = Some 7 \<and> o_restaurant inst' = 1
          \<and> points d' = points example_db
          \<and> get_total_points d' 7 1 = 10)"
proof -
  have "get_total_cost example_db open_order = Inr 2025"
    by (simp add: get_total_cost_def sum_costs_char example_db_def open_order_def
        order_items_of_def line_known_def line_cost_def get_menu_item_def)
  moreover note get_total_points_example
  moreover have "case OrderManageSerializer_update example_db open_order
             (no_data\<lparr>d_status := Some COMPLETED\<rparr>) of
        Inl e \<Rightarrow> False
      | Inr (d', inst') \<Rightarrow>
          o_status inst' = COMPLETED \<and> o_user inst' = Some 7 \<and> o_restaurant inst' = 1
          \<and> points d' = points example_db
          \<and> get_total_points d' 7 1 = 10"
    by (simp add: update_result dict_get_def Order_save_frame no_data_def)
       (simp add: open_order_def get_total_points_def example_db_def)
  ultimately show ?thesis by simp
qed

section \<open>Orders in a terminal state\<close>

text \<open>
  Claim C1, as the code has it. The serializers do not look at the current status. On an
  order that is \<open>COMPLETED\<close> or \<open>CANCELLED\<close>, an update returns and takes effect as on
  any other order (table, status and paid flag are set from the request, the lines are
  replaced when the request carries lines, one history entry is appended when it carries
  a status); a cancellation returns, sets \<open>CANCELLED\<close> and appends one history entry;
  cancelling a line of the order returns and deletes the line.
\<close>

theorem terminal_orders_are_modified:
  "terminal (o_status inst) \<longrightarrow>
     (case OrderManageSerializer_update d inst data of
        Inl e \<Rightarrow> False
      | Inr (d', inst') \<Rightarrow>
          inst' = inst\<lparr>o_table := (case d_table data of None \<Rightarrow> o_table inst | Some t \<Rightarrow> t),
                       o_status := (case d_status data of None \<Rightarrow> o_status inst | Some s \<Rightarrow> s),
                       o_paid := (case d_paid data of None \<Rightarrow> o_paid inst | Some p \<Rightarrow> p)\<rparr>
          \<and> get_order d' (o_id inst) = Some inst'
          \<and> order_items d' =
               (case d_items data of
                  None \<Rightarrow> order_items d
                | Some new_items \<Rightarrow>
                    filter (\<lambda>i. oi_order i \<noteq> o_id inst) (order_items d)
                    @ item_rows (o_id inst) (next_order_item_id d) new_items)
          \<and> status_history d' =
               (case d_status data of
                  None \<Rightarrow> status_history d
                | Some s \<Rightarrow> status_history d
                    @ [\<lparr>h_id = next_history_id d, h_order = o_id inst, h_status = s\<rparr>]))
     \<and> (case OrderCancelSerializer_update d inst of
          Inl e \<Rightarrow> False
        | Inr (d', inst') \<Rightarrow>
            inst' = inst\<lparr>o_status := CANCELLED\<rparr>
            \<and> get_order d' (o_id inst) = Some inst'
            \<and> status_history d' = status_history d
                 @ [\<lparr>h_id = next_history_id d, h_order = o_id inst, h_status = CANCELLED\<rparr>])
     \<and> (get_order d (oi_order item) = Some inst \<longrightarrow>
          (case OrderItemCancelSerializer_update d item of
             Inl e \<Rightarrow> False
           | Inr (d', item') \<Rightarrow>
               order_items d' = filter (\<lambda>i. oi_id i \<noteq> oi_id item) (order_items d)))"
  by (simp add: update_result cancel_result cancel_item_result dict_get_def
      get_order_Order_save_at Order_save_frame)

text \<open>
  The completed order 2 is set back to \<open>PENDING\<close> with its lines replaced by none, and
  its single line can be cancelled.
\<close>

theorem terminal_orders_are_modified_witness:
  "terminal (o_status completed_order)
   \<and> get_order example_db 2 = Some completed_order
   \<and> (case OrderManageSerializer_update example_db completed_order
             (no_data\<lparr>d_status := Some PENDING, d_items := Some []\<rparr>) of
        Inl e \<Rightarrow> False
      | Inr (d', inst') \<Rightarrow>
          get_order d' 2 = Some (completed_order\<lparr>o_status := PENDING\<rparr>)
          \<and> order_items_of d' 2 = []
          \<and> history_of d' 2 = [PENDING, COMPLETED, PENDING])
   \<and> (case OrderItemCancelSerializer_update example_db
             \<lparr>oi_id = 3, oi_order = 2, oi_menu_item = 2, oi_quantity = 4, oi_employee = None\<rparr> of
        Inl e \<Rightarrow> False
      | Inr (d', item') \<Rightarrow> order_items_of d' 2 = [])"
  using terminal_orders_are_modified
      [where d = example_db and inst = completed_order
         and data = "no_data\<lparr>d_status := Some PENDING, d_items := Some []\<rparr>"
         and item = "\<lparr>oi_id = 3, oi_order = 2, oi_menu_item = 2, oi_quantity = 4, oi_employee = None\<rparr>"]
  by (auto simp: example_db_def completed_order_def no_data_def terminal_def get_order_def
      order_items_of_def history_of_def split: sum.splits prod.splits)

text \<open>
  The claim as written has every such operation rejected with the order unchanged.
  Cancelling the completed order 2 is accepted: its status becomes \<open>CANCELLED\<close> and its
  history gains an entry.
\<close>

theorem cancel_completed_order_counterexample:
  "terminal (o_status completed_order)
   \<and> get_order example_db 2 = Some completed_order
   \<and> history_of example_db 2 = [PENDING, COMPLETED]
   \<and> (case OrderCancelSerializer_update example_db completed_order of
        Inl e \<Rightarrow> False
      | Inr (d', inst') \<Rightarrow>
          o_status inst' = CANCELLED
          \<and> get_order d' 2 = Some inst'
          \<and> history_of d' 2 = [PENDING, COMPLETED, CANCELLED])"
  by (simp add: cancel_result)
     (simp add: terminal_def completed_order_def example_db_def get_order_def history_of_def
        Order_save_def)

end
